theory Spec2Isabelle
  imports Complex_Main
begin

section \<open>Python values\<close>

text \<open>
  The values that \<open>json.load\<close> produces: \<open>None\<close>, booleans, unbounded integers, floats,
  strings, lists and dictionaries with string keys. The float type \<open>'f\<close> and its
  arithmetic are parameters of the development (see \<open>runtime\<close> below): no theorem
  depends on how floating-point operations round.

  A dictionary is an association list read with \<open>map_of\<close> (the first binding of a key
  is the one the dictionary holds).
\<close>

datatype 'f pyval =
    PNone
  | PBool bool
  | PInt int
  | PFloat 'f
  | PStr string
  | PList "'f pyval list"
  | PDict "(string \<times> 'f pyval) list"

text \<open>
  The exceptions of the program. \<open>OverflowError\<close> is what the conversion of an integer
  beyond the float range raises, and what the repetition of a sequence beyond the index
  range raises; \<open>ValueError\<close> is what \<open>str\<close> raises on an integer beyond the digit limit
  of the interpreter, and the class of \<open>UnicodeDecodeError\<close>; \<open>OSError\<close> is the class of
  \<open>PermissionError\<close> and \<open>IsADirectoryError\<close>. None of them is a \<open>TypeError\<close>.
\<close>

datatype py_error =
    KeyError
  | TypeError
  | AttributeError
  | OverflowError
  | MemoryError
  | ValueError
  | OSError
  | OtherException string

text \<open>
  What the development takes from the Python runtime without defining it:
  \<^item> float addition and multiplication, which raise nothing;
  \<^item> the conversion of an integer to a float, \<open>None\<close> where Python raises
    \<open>OverflowError\<close> (``int too large to convert to float'');
  \<^item> the truth value of a float;
  \<^item> equality of two numbers of which at least one is a float (for dictionary keys);
  \<^item> the exception, if any, that stops the runtime from building \<open>s * n\<close> for a
    sequence \<open>s\<close> and a count \<open>n\<close> (\<open>OverflowError\<close> for a count beyond the index range
    or a string that would be too long, \<open>MemoryError\<close>);
  \<^item> \<open>str()\<close> of a value that is not a string, as an f-string calls it.
\<close>

record 'f runtime =
  fadd :: "'f \<Rightarrow> 'f \<Rightarrow> 'f"
  fmul :: "'f \<Rightarrow> 'f \<Rightarrow> 'f"
  float_of_int :: "int \<Rightarrow> 'f option"
  fnonzero :: "'f \<Rightarrow> bool"
  float_key_eq :: "'f pyval \<Rightarrow> 'f pyval \<Rightarrow> bool"
  repeat_error :: "'f pyval \<Rightarrow> int \<Rightarrow> py_error option"
  str_of :: "'f pyval \<Rightarrow> py_error + string"

definition py_bind :: "py_error + 'a \<Rightarrow> ('a \<Rightarrow> py_error + 'b) \<Rightarrow> py_error + 'b" where
  \<comment> \<open>Sequencing: an exception of the first computation propagates.\<close>
  "py_bind m f = (case m of Inl e \<Rightarrow> Inl e | Inr x \<Rightarrow> f x)"

subsection \<open>Truth value, numbers, arithmetic\<close>

fun truthy :: "'f runtime \<Rightarrow> 'f pyval \<Rightarrow> bool" where
  "truthy rt PNone = False"
| "truthy rt (PBool b) = b"
| "truthy rt (PInt i) = (i \<noteq> 0)"
| "truthy rt (PFloat x) = fnonzero rt x"
| "truthy rt (PStr s) = (s \<noteq> [])"
| "truthy rt (PList xs) = (xs \<noteq> [])"
| "truthy rt (PDict kvs) = (kvs \<noteq> [])"

fun int_of :: "'f pyval \<Rightarrow> int option" where
  \<comment> \<open>\<open>bool\<close> is a subclass of \<open>int\<close>: \<open>True\<close> is 1 and \<open>False\<close> is 0.\<close>
  "int_of (PBool b) = Some (if b then 1 else 0)"
| "int_of (PInt i) = Some i"
| "int_of _ = None"

fun is_number :: "'f pyval \<Rightarrow> bool" where
  "is_number (PBool b) = True"
| "is_number (PInt i) = True"
| "is_number (PFloat x) = True"
| "is_number _ = False"

fun is_seq :: "'f pyval \<Rightarrow> bool" where
  "is_seq (PStr s) = True"
| "is_seq (PList xs) = True"
| "is_seq _ = False"

definition int_to_float :: "'f runtime \<Rightarrow> int \<Rightarrow> py_error + 'f" where
  "int_to_float rt i = (case float_of_int rt i of Some x \<Rightarrow> Inr x | None \<Rightarrow> Inl OverflowError)"

fun to_float :: "'f runtime \<Rightarrow> 'f pyval \<Rightarrow> py_error + 'f" where
  \<comment> \<open>The float operand that float arithmetic makes of a number.\<close>
  "to_float rt (PFloat x) = Inr x"
| "to_float rt (PInt i) = int_to_float rt i"
| "to_float rt (PBool b) = int_to_float rt (if b then 1 else 0)"
| "to_float rt v = Inl TypeError"

definition num_mul :: "'f runtime \<Rightarrow> 'f pyval \<Rightarrow> 'f pyval \<Rightarrow> py_error + 'f pyval" where
  \<comment> \<open>\<open>a * b\<close> on two numbers: an integer unless one of them is a float, and then the
      other one is converted.\<close>
  "num_mul rt a b =
     (case (int_of a, int_of b) of
        (Some i, Some j) \<Rightarrow> Inr (PInt (i * j))
      | _ \<Rightarrow>
         py_bind (to_float rt a) (\<lambda>x.
         py_bind (to_float rt b) (\<lambda>y. Inr (PFloat (fmul rt x y)))))"

definition num_add :: "'f runtime \<Rightarrow> 'f pyval \<Rightarrow> 'f pyval \<Rightarrow> py_error + 'f pyval" where
  \<comment> \<open>\<open>a + b\<close> on two numbers.\<close>
  "num_add rt a b =
     (case (int_of a, int_of b) of
        (Some i, Some j) \<Rightarrow> Inr (PInt (i + j))
      | _ \<Rightarrow>
         py_bind (to_float rt a) (\<lambda>x.
         py_bind (to_float rt b) (\<lambda>y. Inr (PFloat (fadd rt x y)))))"

fun repeated :: "'f pyval \<Rightarrow> int \<Rightarrow> 'f pyval" where
  \<comment> \<open>The sequence \<open>s * n\<close>; a count below 1 gives the empty sequence.\<close>
  "repeated (PStr s) n = PStr (concat (replicate (nat n) s))"
| "repeated (PList xs) n = PList (concat (replicate (nat n) xs))"
| "repeated v n = v"

definition seq_repeat :: "'f runtime \<Rightarrow> 'f pyval \<Rightarrow> int \<Rightarrow> py_error + 'f pyval" where
  \<comment> \<open>\<open>s * n\<close> on a string or a list, unless the runtime refuses to build it.\<close>
  "seq_repeat rt s n =
     (case repeat_error rt s n of Some e \<Rightarrow> Inl e | None \<Rightarrow> Inr (repeated s n))"

definition py_mul :: "'f runtime \<Rightarrow> 'f pyval \<Rightarrow> 'f pyval \<Rightarrow> py_error + 'f pyval" where
  \<comment> \<open>The operator \<open>*\<close>: numbers multiply, a sequence and an integer repeat, anything
      else (\<open>None\<close>, a dictionary, a sequence and a float, two sequences) is a
      \<open>TypeError\<close>.\<close>
  "py_mul rt a b =
     (if is_number a \<and> is_number b then num_mul rt a b
      else if is_seq a then
        (case int_of b of Some n \<Rightarrow> seq_repeat rt a n | None \<Rightarrow> Inl TypeError)
      else if is_seq b then
        (case int_of a of Some n \<Rightarrow> seq_repeat rt b n | None \<Rightarrow> Inl TypeError)
      else Inl TypeError)"

definition py_add :: "'f runtime \<Rightarrow> 'f pyval \<Rightarrow> 'f pyval \<Rightarrow> py_error + 'f pyval" where
  \<comment> \<open>The operator \<open>+\<close>: numbers add, two strings or two lists concatenate, anything
      else is a \<open>TypeError\<close>. On a number, \<open>t += v\<close> is \<open>t = t + v\<close>.\<close>
  "py_add rt a b =
     (if is_number a \<and> is_number b then num_add rt a b
      else case (a, b) of
        (PStr s, PStr t) \<Rightarrow> Inr (PStr (s @ t))
      | (PList xs, PList ys) \<Rightarrow> Inr (PList (xs @ ys))
      | _ \<Rightarrow> Inl TypeError)"

subsection \<open>Subscripts, attributes, iteration, formatting\<close>

fun py_getitem :: "'f pyval \<Rightarrow> string \<Rightarrow> py_error + 'f pyval" where
  \<comment> \<open>\<open>v[k]\<close> with a string \<open>k\<close>: only a dictionary takes a string subscript.\<close>
  "py_getitem (PDict kvs) k = (case map_of kvs k of Some v \<Rightarrow> Inr v | None \<Rightarrow> Inl KeyError)"
| "py_getitem v k = Inl TypeError"

fun py_get :: "'f pyval \<Rightarrow> string \<Rightarrow> py_error + 'f pyval" where
  \<comment> \<open>\<open>v.get(k)\<close>: among the JSON values only a dictionary has the method \<open>get\<close>;
      a missing key gives \<open>None\<close>.\<close>
  "py_get (PDict kvs) k = (case map_of kvs k of Some v \<Rightarrow> Inr v | None \<Rightarrow> Inr PNone)"
| "py_get v k = Inl AttributeError"

fun py_iter :: "'f pyval \<Rightarrow> py_error + 'f pyval list" where
  \<comment> \<open>The items that \<open>for x in v\<close> visits: the elements of a list, the keys of a
      dictionary, the characters of a string; other values are not iterable.\<close>
  "py_iter (PList xs) = Inr xs"
| "py_iter (PDict kvs) = Inr (map (\<lambda>k. PStr k) (remdups (map fst kvs)))"
| "py_iter (PStr s) = Inr (map (\<lambda>c. PStr [c]) s)"
| "py_iter v = Inl TypeError"

fun py_format :: "'f runtime \<Rightarrow> 'f pyval \<Rightarrow> py_error + string" where
  \<comment> \<open>\<open>{v}\<close> inside an f-string: a string stands for itself.\<close>
  "py_format rt (PStr s) = Inr s"
| "py_format rt v = str_of rt v"

subsection \<open>The price dictionary\<close>

text \<open>
  \<open>price_dict\<close> is keyed by whatever the titles are. Lists and dictionaries are not
  hashable; two keys are the same key when they are equal strings, both \<open>None\<close>, or
  equal numbers (\<open>True == 1\<close>; the comparison with a float is the runtime's).
\<close>

fun hashable :: "'f pyval \<Rightarrow> bool" where
  "hashable (PList xs) = False"
| "hashable (PDict kvs) = False"
| "hashable v = True"

definition key_eq :: "'f runtime \<Rightarrow> 'f pyval \<Rightarrow> 'f pyval \<Rightarrow> bool" where
  "key_eq rt a b =
     (case (a, b) of
        (PStr s, PStr t) \<Rightarrow> s = t
      | (PNone, PNone) \<Rightarrow> True
      | _ \<Rightarrow>
        (if is_number a \<and> is_number b then
           (case (int_of a, int_of b) of
              (Some i, Some j) \<Rightarrow> i = j
            | _ \<Rightarrow> float_key_eq rt a b)
         else False))"

type_synonym 'f pydict = "('f pyval \<times> 'f pyval) list"

fun dict_lookup :: "'f runtime \<Rightarrow> 'f pydict \<Rightarrow> 'f pyval \<Rightarrow> 'f pyval option" where
  "dict_lookup rt [] k = None"
| "dict_lookup rt ((k', v) # d) k = (if key_eq rt k' k then Some v else dict_lookup rt d k)"

fun dict_store :: "'f runtime \<Rightarrow> 'f pydict \<Rightarrow> 'f pyval \<Rightarrow> 'f pyval \<Rightarrow> 'f pydict" where
  \<comment> \<open>\<open>d[k] = v\<close>: a key already present keeps its place and takes the new value.\<close>
  "dict_store rt [] k v = [(k, v)]"
| "dict_store rt ((k', v') # d) k v =
     (if key_eq rt k' k then (k', v) # d else (k', v') # dict_store rt d k v)"

definition dict_setitem ::
    "'f runtime \<Rightarrow> 'f pydict \<Rightarrow> 'f pyval \<Rightarrow> 'f pyval \<Rightarrow> py_error + 'f pydict" where
  "dict_setitem rt d k v = (if hashable k then Inr (dict_store rt d k v) else Inl TypeError)"

definition dict_contains :: "'f runtime \<Rightarrow> 'f pydict \<Rightarrow> 'f pyval \<Rightarrow> py_error + bool" where
  \<comment> \<open>\<open>k in d\<close> hashes \<open>k\<close> first.\<close>
  "dict_contains rt d k =
     (if hashable k then Inr (dict_lookup rt d k \<noteq> None) else Inl TypeError)"

definition dict_getitem :: "'f runtime \<Rightarrow> 'f pydict \<Rightarrow> 'f pyval \<Rightarrow> py_error + 'f pyval" where
  "dict_getitem rt d k =
     (if hashable k then
        (case dict_lookup rt d k of Some v \<Rightarrow> Inr v | None \<Rightarrow> Inl KeyError)
      else Inl TypeError)"

fun build_price_dict :: "'f runtime \<Rightarrow> 'f pyval list \<Rightarrow> 'f pydict \<Rightarrow> py_error + 'f pydict" where
  \<comment> \<open>\<open>{item["title"]: item["price"] for item in price_catalogue}\<close>: for each item the
      key expression, then the value expression, then the store.\<close>
  "build_price_dict rt [] d = Inr d"
| "build_price_dict rt (item # items) d =
     py_bind (py_getitem item ''title'') (\<lambda>title.
     py_bind (py_getitem item ''price'') (\<lambda>price.
     py_bind (dict_setitem rt d title price) (\<lambda>d'.
     build_price_dict rt items d')))"

section \<open>calculate\_total\_cost\<close>

type_synonym 'f acc = "'f pyval \<times> string list"

definition msg_missing :: string where
  "msg_missing = ''Warning: Sale record with a missing product name.''"

definition text_unlisted :: "string \<Rightarrow> string" where
  "text_unlisted name =
     ''Warning: '' @ [CHR 0x27] @ name @ [CHR 0x27] @ '' is not listed in the price catalogue.''"

definition text_invalid :: "string \<Rightarrow> string" where
  "text_invalid name =
     ''Error: Invalid price format for '' @ [CHR 0x27] @ name @ [CHR 0x27] @ ''.''"

definition msg_unlisted :: "'f runtime \<Rightarrow> 'f pyval \<Rightarrow> py_error + string" where
  \<comment> \<open>\<open>f"Warning: '{product}' is not listed in the price catalogue."\<close>\<close>
  "msg_unlisted rt product = py_bind (py_format rt product) (\<lambda>name. Inr (text_unlisted name))"

definition msg_invalid :: "'f runtime \<Rightarrow> 'f pyval \<Rightarrow> py_error + string" where
  \<comment> \<open>\<open>f"Error: Invalid price format for '{product}'."\<close>\<close>
  "msg_invalid rt product = py_bind (py_format rt product) (\<lambda>name. Inr (text_invalid name))"

definition add_line :: "'f runtime \<Rightarrow> 'f pydict \<Rightarrow> 'f pyval \<Rightarrow> 'f pyval \<Rightarrow> 'f pyval
    \<Rightarrow> py_error + 'f pyval" where
  \<comment> \<open>The body of the \<open>try\<close>: \<open>price = price_dict[product]\<close>,
      \<open>total_cost += price * quantity\<close>.\<close>
  "add_line rt price_dict total_cost product quantity =
     py_bind (dict_getitem rt price_dict product) (\<lambda>price.
     py_bind (py_mul rt price quantity) (\<lambda>line.
     py_add rt total_cost line))"

definition process_sale :: "'f runtime \<Rightarrow> 'f pydict \<Rightarrow> 'f acc \<Rightarrow> 'f pyval \<Rightarrow> py_error + 'f acc" where
  \<comment> \<open>One iteration of the loop over \<open>sales_data\<close>, on the pair
      \<open>(total_cost, errors)\<close>. Only a \<open>TypeError\<close> of the \<open>try\<close> body is caught.\<close>
  "process_sale rt price_dict acc sale =
     (case acc of (total_cost, errors) \<Rightarrow>
      py_bind (py_get sale ''Product'') (\<lambda>product.
      py_bind (py_get sale ''Quantity'') (\<lambda>quantity.
        if \<not> truthy rt product then Inr (total_cost, errors @ [msg_missing])
        else
          py_bind (dict_contains rt price_dict product) (\<lambda>listed.
            if \<not> listed then
              py_bind (msg_unlisted rt product) (\<lambda>m. Inr (total_cost, errors @ [m]))
            else
              (case add_line rt price_dict total_cost product quantity of
                 Inr total_cost' \<Rightarrow> Inr (total_cost', errors)
               | Inl TypeError \<Rightarrow>
                   py_bind (msg_invalid rt product) (\<lambda>m. Inr (total_cost, errors @ [m]))
               | Inl e \<Rightarrow> Inl e)))))"

fun sales_loop :: "'f runtime \<Rightarrow> 'f pydict \<Rightarrow> 'f pyval list \<Rightarrow> 'f acc \<Rightarrow> py_error + 'f acc" where
  "sales_loop rt price_dict [] acc = Inr acc"
| "sales_loop rt price_dict (sale # sales) acc =
     py_bind (process_sale rt price_dict acc sale) (sales_loop rt price_dict sales)"

definition price_dict_of :: "'f runtime \<Rightarrow> 'f pyval \<Rightarrow> py_error + 'f pydict" where
  "price_dict_of rt price_catalogue =
     py_bind (py_iter price_catalogue) (\<lambda>items. build_price_dict rt items [])"

definition calculate_total_cost ::
    "'f runtime \<Rightarrow> 'f pyval \<Rightarrow> 'f pyval \<Rightarrow> py_error + 'f acc" where
  "calculate_total_cost rt price_catalogue sales_data =
     py_bind (price_dict_of rt price_catalogue) (\<lambda>price_dict.
     py_bind (py_iter sales_data) (\<lambda>sales.
     sales_loop rt price_dict sales (PInt 0, [])))"

section \<open>The run\<close>

text \<open>
  What \<open>open\<close> and \<open>json.load\<close> make of a path: \<open>FileNotFoundError\<close>,
  \<open>JSONDecodeError\<close>, any other exception (\<open>PermissionError\<close>, \<open>IsADirectoryError\<close>,
  \<open>UnicodeDecodeError\<close>, the \<open>ValueError\<close> of an integer literal beyond the digit limit,
  \<open>RecursionError\<close>), or the parsed document. The world of a run is the file system, a
  function from paths to files, the exception, if any, with which opening or writing
  \<open>SalesResults.txt\<close> fails, and the exception, if any, with which printing the report
  on the console fails. Printing on \<open>stderr\<close> is taken to succeed; the command line is
  taken to hold the two paths.
\<close>

datatype 'f json_file = Missing | Malformed | Unreadable py_error | Document "'f pyval"

record 'f world =
  fs :: "string \<Rightarrow> 'f json_file"
  results_file :: "py_error option"
  console :: "py_error option"

definition load_json_file :: "'f world \<Rightarrow> string \<Rightarrow> py_error + 'f pyval \<times> string list" where
  \<comment> \<open>The value returned and the lines printed on \<open>stderr\<close>; the function falls through
      to \<open>return None\<close> after either message, and catches no other exception.\<close>
  "load_json_file w filename =
     (case fs w filename of
        Document v \<Rightarrow> Inr (v, [])
      | Missing \<Rightarrow>
          Inr (PNone,
            [''Error: The file '' @ [CHR 0x27] @ filename @ [CHR 0x27] @ '' was not found.''])
      | Malformed \<Rightarrow>
          Inr (PNone,
            [''Error: The file '' @ [CHR 0x27] @ filename @ [CHR 0x27]
              @ '' contains invalid JSON.''])
      | Unreadable e \<Rightarrow> Inl e)"






section \<open>Specification-side definitions\<close>

text \<open>
  The fields of a sale record as \<open>sale.get\<close> reads them, the price that the mapping
  holds for its product, and the line cost \<open>price[s.product] * s.quantity\<close>, which is
  an exception where Python raises one.
\<close>

definition sale_product :: "'f pyval \<Rightarrow> 'f pyval" where
  "sale_product sale = (case py_get sale ''Product'' of Inr v \<Rightarrow> v | Inl e \<Rightarrow> PNone)"

definition sale_quantity :: "'f pyval \<Rightarrow> 'f pyval" where
  "sale_quantity sale = (case py_get sale ''Quantity'' of Inr v \<Rightarrow> v | Inl e \<Rightarrow> PNone)"

definition sale_price :: "'f runtime \<Rightarrow> 'f pydict \<Rightarrow> 'f pyval \<Rightarrow> 'f pyval" where
  "sale_price rt d sale =
     (case dict_lookup rt d (sale_product sale) of Some price \<Rightarrow> price | None \<Rightarrow> PNone)"

definition line_cost :: "'f runtime \<Rightarrow> 'f pydict \<Rightarrow> 'f pyval \<Rightarrow> py_error + 'f pyval" where
  "line_cost rt d sale = py_mul rt (sale_price rt d sale) (sale_quantity sale)"

fun py_sum :: "'f runtime \<Rightarrow> 'f pyval \<Rightarrow> (py_error + 'f pyval) list \<Rightarrow> py_error + 'f pyval" where
  \<comment> \<open>\<open>sum\<close> of items that are computed one by one, from a start value, left to
      right: the first exception of an item or of an addition ends it.\<close>
  "py_sum rt start [] = Inr start"
| "py_sum rt start (x # xs) =
     py_bind x (\<lambda>v. py_bind (py_add rt start v) (\<lambda>start'. py_sum rt start' xs))"

fun is_record :: "'f pyval \<Rightarrow> bool" where
  "is_record (PDict kvs) = True"
| "is_record v = False"

fun is_string :: "'f pyval \<Rightarrow> bool" where
  "is_string (PStr s) = True"
| "is_string v = False"

fun string_of :: "'f pyval \<Rightarrow> string" where
  "string_of (PStr s) = s"
| "string_of v = []"

definition no_anomaly :: "'f runtime \<Rightarrow> 'f pydict \<Rightarrow> 'f pyval \<Rightarrow> bool" where
  \<comment> \<open>A record with a product that the mapping lists and a numeric price and quantity.\<close>
  "no_anomaly rt d sale =
     (is_record sale \<and> truthy rt (sale_product sale)
      \<and> dict_lookup rt d (sale_product sale) \<noteq> None
      \<and> is_number (sale_price rt d sale) \<and> is_number (sale_quantity sale))"

text \<open>
  The classification of section 4.1 of the specification, for a record whose product is
  a string: the warning that the record earns, if any (steps 2a, 2b, 2c), and its
  addend (step 2d). A record whose line cost raises an exception other than
  \<open>TypeError\<close> has neither.
\<close>

definition sale_warning :: "'f runtime \<Rightarrow> 'f pydict \<Rightarrow> 'f pyval \<Rightarrow> string option" where
  "sale_warning rt d sale =
     (if \<not> truthy rt (sale_product sale) then Some msg_missing
      else if dict_lookup rt d (sale_product sale) = None
        then Some (text_unlisted (string_of (sale_product sale)))
      else if is_number (sale_price rt d sale) \<and> is_number (sale_quantity sale) then None
      else
        (case line_cost rt d sale of
           Inr v \<Rightarrow> Some (text_invalid (string_of (sale_product sale)))
         | Inl e \<Rightarrow>
            if e = TypeError then Some (text_invalid (string_of (sale_product sale)))
            else None))"

definition sale_addend :: "'f runtime \<Rightarrow> 'f pydict \<Rightarrow> 'f pyval \<Rightarrow> 'f pyval option" where
  "sale_addend rt d sale =
     (if no_anomaly rt d sale
      then (case line_cost rt d sale of Inr v \<Rightarrow> Some v | Inl e \<Rightarrow> None)
      else None)"




definition sale_ok :: "'f runtime \<Rightarrow> 'f pyval \<Rightarrow> bool" where
  "sale_ok rt sale =
     (is_record sale \<and> (if truthy rt (sale_product sale) then is_string (sale_product sale) else True))"

definition refused_repetition :: "'f runtime \<Rightarrow> 'f pyval \<Rightarrow> 'f pyval \<Rightarrow> bool" where
  \<comment> \<open>\<open>a * b\<close> is the repetition of a sequence by an integer, and the runtime does not
      build it.\<close>
  "refused_repetition rt a b =
     (if is_seq a then (case int_of b of Some n \<Rightarrow> repeat_error rt a n \<noteq> None | None \<Rightarrow> False)
      else if is_seq b then (case int_of a of Some n \<Rightarrow> repeat_error rt b n \<noteq> None | None \<Rightarrow> False)
      else False)"

fun the_int :: "'f pyval \<Rightarrow> int" where
  \<comment> \<open>The integer that an \<open>int\<close> or a \<open>bool\<close> is.\<close>
  "the_int (PInt i) = i"
| "the_int (PBool b) = (if b then 1 else 0)"
| "the_int v = 0"

fun is_int :: "'f pyval \<Rightarrow> bool" where
  "is_int (PInt i) = True"
| "is_int (PBool b) = True"
| "is_int v = False"

text \<open>
  Bounds on the numbers and sequences of the input, and on what the runtime converts
  and builds.
\<close>

fun seq_len :: "'f pyval \<Rightarrow> nat" where
  "seq_len (PStr s) = length s"
| "seq_len (PList xs) = length xs"
| "seq_len v = 0"







fun document :: "'f json_file \<Rightarrow> 'f pyval" where
  "document (Document v) = v"
| "document f = PNone"


definition usable :: "'f runtime \<Rightarrow> 'f json_file \<Rightarrow> bool" where
  \<comment> \<open>A file that loads to a truthy document.\<close>
  "usable rt f = (case f of Document v \<Rightarrow> truthy rt v | _ \<Rightarrow> False)"


definition entry :: "string \<Rightarrow> 'f pyval \<Rightarrow> 'f pyval" where
  \<comment> \<open>The catalogue entry \<open>{"title": t, "price": p}\<close>.\<close>
  "entry t p = PDict [(''title'', PStr t), (''price'', p)]"

definition sale :: "'f pyval \<Rightarrow> 'f pyval \<Rightarrow> 'f pyval" where
  \<comment> \<open>The sale record \<open>{"Product": p, "Quantity": q}\<close>.\<close>
  "sale p q = PDict [(''Product'', p), (''Quantity'', q)]"


subsection \<open>A runtime for the examples\<close>

text \<open>
  A 64-bit CPython with memory for every sequence within the index range, in which
  floats are rational numbers with exact arithmetic: it agrees with binary floating
  point wherever the latter is exact, as on the values of the examples below. An
  integer converts to a float when it rounds to a finite double, that is when its
  magnitude is below \<open>2^1024 - 2^970\<close>. A repetition count must fit the index type, and
  so must the length of the result. \<open>str()\<close> of a value that is not a string is not
  used by the examples.
\<close>

fun rat_of_num :: "rat pyval \<Rightarrow> rat" where
  "rat_of_num (PFloat x) = x"
| "rat_of_num (PInt i) = of_int i"
| "rat_of_num (PBool b) = (if b then 1 else 0)"
| "rat_of_num v = 0"

definition exact_float_of_int :: "int \<Rightarrow> rat option" where
  "exact_float_of_int i = (if \<bar>i\<bar> < 2 ^ 1024 - 2 ^ 970 then Some (of_int i) else None)"

definition exact_repeat_error :: "rat pyval \<Rightarrow> int \<Rightarrow> py_error option" where
  "exact_repeat_error s n =
     (if n < - (2 ^ 63) \<or> 2 ^ 63 \<le> n then Some OverflowError
      else if 0 < n \<and> 2 ^ 63 \<le> int (seq_len s) * n
        then Some (if is_string s then OverflowError else MemoryError)
      else None)"

definition exact_rt :: "rat runtime" where
  "exact_rt =
     \<lparr>fadd = (\<lambda>x y. x + y), fmul = (\<lambda>x y. x * y), float_of_int = exact_float_of_int,
      fnonzero = (\<lambda>x. x \<noteq> 0), float_key_eq = (\<lambda>a b. rat_of_num a = rat_of_num b),
      repeat_error = exact_repeat_error, str_of = (\<lambda>v. Inr [])\<rparr>"

section \<open>Basic facts\<close>

lemma py_bind_Inl [simp]: "py_bind (Inl e) f = Inl e"
  by (simp add: py_bind_def)

lemma py_bind_Inr [simp]: "py_bind (Inr x) f = f x"
  by (simp add: py_bind_def)


lemma py_bind_eq_Inr: "py_bind m f = Inr y \<longleftrightarrow> (\<exists>x. m = Inr x \<and> f x = Inr y)"
  by (cases m) simp_all

lemma key_eq_hashable: "key_eq rt k' k \<Longrightarrow> hashable k"
  by (cases k) (auto simp: key_eq_def split: pyval.splits)

lemma lookup_Some_hashable: "dict_lookup rt d k = Some v \<Longrightarrow> hashable k"
  by (induction d) (auto split: if_splits dest: key_eq_hashable)

lemma exact_small [simp]: "\<bar>i\<bar> \<le> 1000000 \<Longrightarrow> exact_float_of_int i = Some (of_int i)"
  by (simp add: exact_float_of_int_def)

lemma to_float_number: "is_number a \<Longrightarrow> to_float rt a = Inl OverflowError \<or> (\<exists>x. to_float rt a = Inr x)"
  by (cases a) (auto simp: int_to_float_def split: option.splits)

lemma num_mul_cases:
  "is_number a \<Longrightarrow> is_number b \<Longrightarrow>
     num_mul rt a b = Inl OverflowError \<or> (\<exists>v. num_mul rt a b = Inr v \<and> is_number v)"
  using to_float_number [of a rt] to_float_number [of b rt]
  by (auto simp: num_mul_def split: option.splits)

lemma num_add_cases:
  "is_number a \<Longrightarrow> is_number b \<Longrightarrow>
     num_add rt a b = Inl OverflowError \<or> (\<exists>v. num_add rt a b = Inr v \<and> is_number v)"
  using to_float_number [of a rt] to_float_number [of b rt]
  by (auto simp: num_add_def split: option.splits)

lemma py_mul_num: "is_number a \<Longrightarrow> is_number b \<Longrightarrow> py_mul rt a b = num_mul rt a b"
  by (simp add: py_mul_def)

lemma py_add_num: "is_number a \<Longrightarrow> is_number b \<Longrightarrow> py_add rt a b = num_add rt a b"
  by (simp add: py_add_def)

lemma py_add_num_left: "is_number a \<Longrightarrow> \<not> is_number b \<Longrightarrow> py_add rt a b = Inl TypeError"
  by (cases a) (auto simp: py_add_def split: pyval.splits)

lemma py_add_number: "is_number t \<Longrightarrow> py_add rt t v = Inr t' \<Longrightarrow> is_number v \<and> is_number t'"
  using num_add_cases [of t v rt] py_add_num_left [of t v rt]
  by (cases "is_number v") (auto simp: py_add_num)

lemma is_number_not_seq: "is_number v \<Longrightarrow> \<not> is_seq v"
  by (cases v) simp_all

lemma repeated_not_number: "is_seq s \<Longrightarrow> \<not> is_number (repeated s n)"
  by (cases s) simp_all

lemma py_mul_Inr_not_number:
  "\<not> (is_number a \<and> is_number b) \<Longrightarrow> py_mul rt a b = Inr v \<Longrightarrow> \<not> is_number v"
  by (auto simp: py_mul_def seq_repeat_def repeated_not_number split: if_splits option.splits)

text \<open>The body of the \<open>try\<close> after the lookup, on a total that is a number.\<close>

lemma line_not_number:
  assumes "is_number t" and "\<not> (is_number price \<and> is_number quantity)"
  shows "py_bind (py_mul rt price quantity) (py_add rt t) =
     (case py_mul rt price quantity of Inr v \<Rightarrow> Inl TypeError | Inl e \<Rightarrow> Inl e)"
proof (cases "py_mul rt price quantity")
  case (Inl e)
  then show ?thesis by simp
next
  case (Inr v)
  then have "\<not> is_number v" using py_mul_Inr_not_number [OF assms(2)] by blast
  then show ?thesis using Inr assms(1) by (simp add: py_add_num_left)
qed

text \<open>The loop body on a record, branch by branch.\<close>

lemma process_sale_record:
  "is_record s \<Longrightarrow>
   process_sale rt d (t, e) s =
     (if \<not> truthy rt (sale_product s) then Inr (t, e @ [msg_missing])
      else if \<not> hashable (sale_product s) then Inl TypeError
      else (case dict_lookup rt d (sale_product s) of
              None \<Rightarrow> py_bind (msg_unlisted rt (sale_product s)) (\<lambda>m. Inr (t, e @ [m]))
            | Some price \<Rightarrow>
               (case py_bind (py_mul rt price (sale_quantity s)) (py_add rt t) of
                  Inr t' \<Rightarrow> Inr (t', e)
                | Inl TypeError \<Rightarrow>
                    py_bind (msg_invalid rt (sale_product s)) (\<lambda>m. Inr (t, e @ [m]))
                | Inl err \<Rightarrow> Inl err)))"
  by (cases s)
    (auto simp: process_sale_def sale_product_def sale_quantity_def dict_contains_def
      add_line_def dict_getitem_def split: option.splits sum.splits py_error.splits)

lemma process_sale_not_record: "\<not> is_record s \<Longrightarrow> process_sale rt d acc s = Inl AttributeError"
  by (cases s; cases acc) (simp_all add: process_sale_def)

lemma sales_loop_append:
  "sales_loop rt d (xs @ ys) acc = py_bind (sales_loop rt d xs acc) (sales_loop rt d ys)"
proof (induction xs arbitrary: acc)
  case Nil
  show ?case by simp
next
  case (Cons x xs)
  show ?case
    by (cases "process_sale rt d acc x") (simp_all add: Cons.IH)
qed


lemma process_sale_errors:
  "process_sale rt d (t, e) s =
     (case process_sale rt d (t, []) s of
        Inl err \<Rightarrow> Inl err
      | Inr (t', e') \<Rightarrow> Inr (t', e @ e'))"
proof (cases "is_record s")
  case True
  show ?thesis
    by (simp add: process_sale_record [OF True] py_bind_def
        split: option.splits sum.splits py_error.splits)
next
  case False
  then show ?thesis by (simp add: process_sale_not_record)
qed

lemma sales_loop_errors:
  "sales_loop rt d S (t, e) =
     (case sales_loop rt d S (t, []) of
        Inl err \<Rightarrow> Inl err
      | Inr (t', e') \<Rightarrow> Inr (t', e @ e'))"
proof (induction S arbitrary: t e)
  case Nil
  show ?case by simp
next
  case (Cons s S)
  show ?case
  proof (cases "process_sale rt d (t, []) s")
    case (Inl err)
    then show ?thesis using process_sale_errors [of rt d t e s] by simp
  next
    case (Inr acc)
    obtain t' e' where acc: "acc = (t', e')" by (cases acc)
    have 1: "process_sale rt d (t, e) s = Inr (t', e @ e')"
      using process_sale_errors [of rt d t e s] Inr acc by simp
    show ?thesis
      using Cons.IH [of t' "e @ e'"] Cons.IH [of t' e'] Inr acc 1
      by (simp split: sum.splits)
  qed
qed

lemma process_sale_number:
  assumes "process_sale rt d (t, e) s = Inr (t', e')" and "is_number t"
  shows "is_number t'"
proof (cases "is_record s")
  case True
  have "\<And>price. py_bind (py_mul rt price (sale_quantity s)) (py_add rt t) = Inr t' \<Longrightarrow> is_number t'"
    using py_add_number [OF assms(2)] by (auto simp: py_bind_eq_Inr)
  then show ?thesis using assms
    by (auto simp: process_sale_record [OF True] py_bind_eq_Inr
        split: if_splits option.splits sum.splits py_error.splits)
next
  case False
  then show ?thesis using assms by (simp add: process_sale_not_record)
qed

lemma sales_loop_number:
  "sales_loop rt d S (t, e) = Inr (t', e') \<Longrightarrow> is_number t \<Longrightarrow> is_number t'"
proof (induction S arbitrary: t e)
  case Nil
  then show ?case by simp
next
  case (Cons s S)
  show ?case
  proof (cases "process_sale rt d (t, e) s")
    case (Inl err)
    then show ?thesis using Cons.prems by simp
  next
    case (Inr acc)
    obtain t1 e1 where acc: "acc = (t1, e1)" by (cases acc)
    have "is_number t1" using process_sale_number Inr acc Cons.prems(2) by blast
    then show ?thesis using Cons.IH [of t1 e1] Cons.prems(1) Inr acc by simp
  qed
qed

lemma calculate_list:
  "price_dict_of rt C = Inr d \<Longrightarrow>
   calculate_total_cost rt C (PList S) = sales_loop rt d S (PInt 0, [])"
  by (simp add: calculate_total_cost_def)

lemma calculate_Inr_dict:
  "calculate_total_cost rt C S = Inr r \<Longrightarrow> \<exists>d. price_dict_of rt C = Inr d"
  by (cases "price_dict_of rt C") (simp_all add: calculate_total_cost_def)

lemma insert_warning:
  assumes step: "\<And>t e. is_number t \<Longrightarrow> process_sale rt d (t, e) s = Inr (t, e @ [w])"
    and d: "price_dict_of rt C = Inr d"
    and pre: "calculate_total_cost rt C (PList S1) = Inr (t1, e1)"
    and all: "calculate_total_cost rt C (PList (S1 @ S2)) = Inr (t, e1 @ e2)"
  shows "calculate_total_cost rt C (PList (S1 @ s # S2)) = Inr (t, e1 @ w # e2)"
proof -
  have l1: "sales_loop rt d S1 (PInt 0, []) = Inr (t1, e1)"
    using pre by (simp add: calculate_list [OF d])
  then have n1: "is_number t1" using sales_loop_number [of rt d S1 "PInt 0" "[]" t1 e1] by simp
  have l2: "sales_loop rt d S2 (t1, e1) = Inr (t, e1 @ e2)"
    using all l1 by (simp add: calculate_list [OF d] sales_loop_append)
  then have l3: "sales_loop rt d S2 (t1, []) = Inr (t, e2)"
    using sales_loop_errors [of rt d S2 t1 e1] by (auto split: sum.splits)
  have "sales_loop rt d S2 (t1, e1 @ [w]) = Inr (t, (e1 @ [w]) @ e2)"
    using sales_loop_errors [of rt d S2 t1 "e1 @ [w]"] l3 by simp
  then show ?thesis
    using l1 step [OF n1, of e1] by (simp add: calculate_list [OF d] sales_loop_append)
qed

lemmas run_defs =
  calculate_total_cost_def price_dict_of_def process_sale_def add_line_def
  dict_setitem_def dict_contains_def dict_getitem_def key_eq_def
  py_mul_def py_add_def num_mul_def num_add_def int_to_float_def seq_repeat_def
  msg_missing_def msg_unlisted_def msg_invalid_def text_unlisted_def text_invalid_def
  entry_def sale_def exact_rt_def

lemma spec_example:
  "calculate_total_cost exact_rt
     (PList [entry ''Apple'' (PFloat (3/2)), entry ''Banana'' (PFloat (1/2))])
     (PList [sale (PStr ''Apple'') (PInt 4), sale (PStr ''Banana'') (PInt 2),
             sale (PStr ''Mango'') (PInt 1), sale (PStr '''') (PInt 1),
             sale (PStr ''Apple'') (PStr ''two'')])
   = Inr (PFloat 7,
          [''Warning: '' @ [CHR 0x27] @ ''Mango'' @ [CHR 0x27] @ '' is not listed in the price catalogue.'',
           ''Warning: Sale record with a missing product name.'',
           ''Error: Invalid price format for '' @ [CHR 0x27] @ ''Apple'' @ [CHR 0x27] @ ''.''])"
  by (simp add: run_defs)

lemma py_mul_not_refused:
  assumes "\<not> (is_number a \<and> is_number b)" and "\<not> refused_repetition rt a b"
  shows "py_mul rt a b = Inl TypeError \<or> (\<exists>v. py_mul rt a b = Inr v)"
  using assms
  by (auto simp: py_mul_def refused_repetition_def seq_repeat_def split: option.splits if_splits)

lemma invalid_step:
  assumes "is_record s" and "truthy rt (sale_product s)"
    and "dict_lookup rt d (sale_product s) = Some price"
    and "\<not> (is_number price \<and> is_number (sale_quantity s))"
    and "\<not> refused_repetition rt price (sale_quantity s)"
    and "py_format rt (sale_product s) = Inr name"
    and "is_number t"
  shows "process_sale rt d (t, e) s = Inr (t, e @ [text_invalid name])"
proof -
  have h: "hashable (sale_product s)" using assms(3) by (rule lookup_Some_hashable)
  have "py_bind (py_mul rt price (sale_quantity s)) (py_add rt t) = Inl TypeError"
    using py_mul_not_refused [OF assms(4,5)] line_not_number [OF assms(7,4), of rt]
    by auto
  then show ?thesis
    using assms(2,3,6) h by (simp add: process_sale_record [OF assms(1)] msg_invalid_def)
qed

lemma list_all_imp: "list_all P xs \<Longrightarrow> (\<And>x. P x \<Longrightarrow> Q x) \<Longrightarrow> list_all Q xs"
  by (induction xs) simp_all

lemma is_int_int_of: "is_int v \<Longrightarrow> int_of v = Some (the_int v)"
  by (cases v) simp_all

lemma is_int_number: "is_int v \<Longrightarrow> is_number v"
  by (cases v) simp_all

lemma num_mul_ints: "is_int a \<Longrightarrow> is_int b \<Longrightarrow> num_mul rt a b = Inr (PInt (the_int a * the_int b))"
  by (simp add: num_mul_def is_int_int_of)

lemma num_add_ints: "is_int a \<Longrightarrow> is_int b \<Longrightarrow> num_add rt a b = Inr (PInt (the_int a + the_int b))"
  by (simp add: num_add_def is_int_int_of)

lemma num_mul_bool: "num_mul rt a (PBool b) = num_mul rt a (PInt (if b then 1 else 0))"
  by (cases b; cases a) (simp_all add: num_mul_def)

lemma num_not_TypeError:
  assumes "is_number a" and "is_number b" and "is_number t"
  shows "py_bind (num_mul rt a b) (num_add rt t) \<noteq> Inl TypeError"
proof (cases "num_mul rt a b")
  case (Inl e)
  then show ?thesis using num_mul_cases [OF assms(1,2), of rt] by auto
next
  case (Inr v)
  then have "is_number v" using num_mul_cases [OF assms(1,2), of rt] by auto
  then show ?thesis using Inr num_add_cases [OF assms(3), of v rt] by auto
qed

lemma numeric_step:
  assumes "is_record s" and "truthy rt (sale_product s)"
    and "dict_lookup rt d (sale_product s) = Some price"
    and "is_number price" and "is_number (sale_quantity s)" and "is_number t"
  shows "process_sale rt d (t, e) s =
      py_bind (py_bind (num_mul rt price (sale_quantity s)) (num_add rt t)) (\<lambda>t'. Inr (t', e))"
proof -
  have h: "hashable (sale_product s)" using assms(3) by (rule lookup_Some_hashable)
  have eq: "py_bind (py_mul rt price (sale_quantity s)) (py_add rt t)
      = py_bind (num_mul rt price (sale_quantity s)) (num_add rt t)"
  proof (cases "num_mul rt price (sale_quantity s)")
    case (Inl err)
    then show ?thesis using assms(4,5) by (simp add: py_mul_num)
  next
    case (Inr v)
    then have "is_number v" using num_mul_cases [OF assms(4,5), of rt] by auto
    then show ?thesis using Inr assms(4,5,6) by (simp add: py_mul_num py_add_num)
  qed
  show ?thesis
    using assms(2,3) h num_not_TypeError [OF assms(4,5,6), of rt]
    by (simp add: process_sale_record [OF assms(1)] eq split: sum.splits py_error.splits)
qed

subsection \<open>Records without anomalies\<close>

lemma no_anomaly_step:
  assumes "no_anomaly rt d s" and "is_number t"
  shows "process_sale rt d (t, e) s =
      py_bind (py_bind (line_cost rt d s) (py_add rt t)) (\<lambda>t'. Inr (t', e))"
proof -
  from assms(1) obtain price where r: "is_record s" and tr: "truthy rt (sale_product s)"
    and l: "dict_lookup rt d (sale_product s) = Some price"
    and n: "is_number price" "is_number (sale_quantity s)"
    by (auto simp: no_anomaly_def sale_price_def)
  have p: "sale_price rt d s = price" using l by (simp add: sale_price_def)
  have eq: "py_bind (py_mul rt price (sale_quantity s)) (py_add rt t)
      = py_bind (num_mul rt price (sale_quantity s)) (num_add rt t)"
  proof (cases "num_mul rt price (sale_quantity s)")
    case (Inl err)
    then show ?thesis using n by (simp add: py_mul_num)
  next
    case (Inr v)
    then have "is_number v" using num_mul_cases [OF n, of rt] by auto
    then show ?thesis using Inr n assms(2) by (simp add: py_mul_num py_add_num)
  qed
  show ?thesis
    using numeric_step [OF r tr l n assms(2), of e] by (simp add: line_cost_def p eq)
qed

lemma no_anomaly_loop:
  "list_all (no_anomaly rt d) S \<Longrightarrow> is_number t \<Longrightarrow>
   sales_loop rt d S (t, e) = py_bind (py_sum rt t (map (line_cost rt d) S)) (\<lambda>t'. Inr (t', e))"
proof (induction S arbitrary: t)
  case Nil
  show ?case by simp
next
  case (Cons s S)
  from Cons.prems have na: "no_anomaly rt d s" and rest: "list_all (no_anomaly rt d) S" by simp_all
  show ?case
  proof (cases "line_cost rt d s")
    case (Inl err)
    then show ?thesis by (simp add: no_anomaly_step [OF na Cons.prems(2)])
  next
    case (Inr v)
    note v = this
    show ?thesis
    proof (cases "py_add rt t v")
      case (Inl err)
      then show ?thesis using v by (simp add: no_anomaly_step [OF na Cons.prems(2)])
    next
      case (Inr t')
      then have "is_number t'" using py_add_number [OF Cons.prems(2)] by blast
      then show ?thesis
        using v Inr Cons.IH [OF rest] by (simp add: no_anomaly_step [OF na Cons.prems(2)])
    qed
  qed
qed

lemma int_lines_sum:
  "list_all (\<lambda>s. no_anomaly rt d s \<and> is_int (sale_price rt d s) \<and> is_int (sale_quantity s)) S \<Longrightarrow>
   py_sum rt (PInt a) (map (line_cost rt d) S)
     = Inr (PInt (a + (\<Sum>s\<leftarrow>S. the_int (sale_price rt d s) * the_int (sale_quantity s))))"
proof (induction S arbitrary: a)
  case Nil
  show ?case by simp
next
  case (Cons s S)
  from Cons.prems have i: "is_int (sale_price rt d s)" "is_int (sale_quantity s)"
    and rest: "list_all (\<lambda>s. no_anomaly rt d s \<and> is_int (sale_price rt d s) \<and> is_int (sale_quantity s)) S"
    by simp_all
  have l: "line_cost rt d s = Inr (PInt (the_int (sale_price rt d s) * the_int (sale_quantity s)))"
    using i by (simp add: line_cost_def py_mul_num is_int_number num_mul_ints)
  show ?case
    using Cons.IH [OF rest] by (simp add: l py_add_def num_add_def add.assoc)
qed

subsection \<open>One outcome for each record\<close>

lemma sale_ok_format:
  assumes "sale_ok rt s" and "truthy rt (sale_product s)"
  shows "hashable (sale_product s) \<and> py_format rt (sale_product s) = Inr (string_of (sale_product s))"
  using assms by (cases "sale_product s") (auto simp: sale_ok_def)

lemma returned_step:
  assumes ok: "sale_ok rt s" and t: "is_number t"
    and ret: "process_sale rt d (t, e) s = Inr (t', e')"
  shows "(\<exists>w. sale_warning rt d s = Some w \<and> sale_addend rt d s = None \<and> t' = t \<and> e' = e @ [w])
       \<or> (\<exists>v. sale_addend rt d s = Some v \<and> sale_warning rt d s = None
              \<and> py_add rt t v = Inr t' \<and> e' = e)"
proof -
  from ok have r: "is_record s" by (simp add: sale_ok_def)
  show ?thesis
  proof (cases "truthy rt (sale_product s)")
    case False
    then show ?thesis using ret
      by (simp add: process_sale_record [OF r] sale_warning_def sale_addend_def no_anomaly_def)
  next
    case True
    note tr = this
    from sale_ok_format [OF ok tr] have h: "hashable (sale_product s)"
      and f: "py_format rt (sale_product s) = Inr (string_of (sale_product s))" by simp_all
    show ?thesis
    proof (cases "dict_lookup rt d (sale_product s)")
      case None
      then show ?thesis using ret tr h f
        by (simp add: process_sale_record [OF r] sale_warning_def sale_addend_def no_anomaly_def
            msg_unlisted_def)
    next
      case (Some price)
      note l = this
      have p: "sale_price rt d s = price" using l by (simp add: sale_price_def)
      show ?thesis
      proof (cases "is_number price \<and> is_number (sale_quantity s)")
        case True
        then have n: "is_number price" "is_number (sale_quantity s)" by simp_all
        have na: "no_anomaly rt d s" using r tr l n by (simp add: no_anomaly_def p)
        from ret obtain v where v: "line_cost rt d s = Inr v" and a: "py_add rt t v = Inr t'"
          and e: "e' = e"
          by (auto simp: no_anomaly_step [OF na t] py_bind_eq_Inr)
        show ?thesis using v a e na tr l n
          by (simp add: sale_warning_def sale_addend_def p)
      next
        case False
        have b: "py_bind (py_mul rt price (sale_quantity s)) (py_add rt t) =
            (case py_mul rt price (sale_quantity s) of Inr v \<Rightarrow> Inl TypeError | Inl e \<Rightarrow> Inl e)"
          using line_not_number [OF t False] .
        have na: "\<not> no_anomaly rt d s" using False by (simp add: no_anomaly_def p)
        show ?thesis
        proof (cases "py_mul rt price (sale_quantity s)")
          case (Inr v)
          then show ?thesis using ret tr h f l False na b
            by (simp add: process_sale_record [OF r] sale_warning_def sale_addend_def p
                line_cost_def msg_invalid_def)
        next
          case (Inl err)
          then show ?thesis using ret tr h f l False na b
            by (cases "err = TypeError")
              (auto simp: process_sale_record [OF r] sale_warning_def sale_addend_def p
                line_cost_def msg_invalid_def split: py_error.splits)
        qed
      qed
    qed
  qed
qed

lemma returned_loop:
  "list_all (sale_ok rt) S \<Longrightarrow> is_number t \<Longrightarrow> sales_loop rt d S (t, e) = Inr (t', e') \<Longrightarrow>
   list_all (\<lambda>s. (sale_warning rt d s = None) \<noteq> (sale_addend rt d s = None)) S
   \<and> e' = e @ List.map_filter (sale_warning rt d) S
   \<and> py_sum rt t (map Inr (List.map_filter (sale_addend rt d) S)) = Inr t'"
proof (induction S arbitrary: t e)
  case Nil
  then show ?case by simp
next
  case (Cons s S)
  from Cons.prems(1) have ok: "sale_ok rt s" and rest: "list_all (sale_ok rt) S" by simp_all
  from Cons.prems(3) obtain t1 e1 where st: "process_sale rt d (t, e) s = Inr (t1, e1)"
    and lp: "sales_loop rt d S (t1, e1) = Inr (t', e')"
    by (auto simp: py_bind_eq_Inr)
  have n1: "is_number t1" using process_sale_number [OF st Cons.prems(2)] .
  note ih = Cons.IH [OF rest n1 lp]
  from returned_step [OF ok Cons.prems(2) st] show ?case
  proof
    assume "\<exists>w. sale_warning rt d s = Some w \<and> sale_addend rt d s = None \<and> t1 = t \<and> e1 = e @ [w]"
    then show ?thesis using ih by auto
  next
    assume "\<exists>v. sale_addend rt d s = Some v \<and> sale_warning rt d s = None
              \<and> py_add rt t v = Inr t1 \<and> e1 = e"
    then show ?thesis using ih by auto
  qed
qed

lemma map_filter_lengths:
  "list_all (\<lambda>x. (f x = None) \<noteq> (g x = None)) xs \<Longrightarrow>
   length (List.map_filter f xs) + length (List.map_filter g xs) = length xs"
  by (induction xs) (auto split: option.splits)

lemma py_sum_ints:
  "list_all is_int vs \<Longrightarrow>
   py_sum rt (PInt a) (map Inr vs) = Inr (PInt (a + sum_list (map the_int vs)))"
proof (induction vs arbitrary: a)
  case Nil
  show ?case by simp
next
  case (Cons v vs)
  from Cons.prems have i: "is_int v" and rest: "list_all is_int vs" by simp_all
  show ?case
    using Cons.IH [OF rest] i
    by (simp add: py_add_def is_int_number num_add_def is_int_int_of add.assoc)
qed

subsection \<open>Building the price dictionary\<close>










subsection \<open>Inputs within bounds\<close>















subsection \<open>main\<close>

lemma load_cases:
  "load_json_file w p =
     (case fs w p of Unreadable e \<Rightarrow> Inl e
      | f \<Rightarrow> Inr (document f, snd (case load_json_file w p of Inr r \<Rightarrow> r | Inl e \<Rightarrow> (PNone, []))))"
  by (cases "fs w p") (simp_all add: load_json_file_def)

lemma usable_document: "usable rt f = (truthy rt (document f))"
  by (cases f) (simp_all add: usable_def)





section \<open>Claims\<close>

text \<open>
  Claim C1 as stated fails: a record with a listed float price and an integer quantity
  beyond the float range has no anomaly, and \<open>price * quantity\<close> raises
  \<open>OverflowError\<close>, which \<open>except TypeError\<close> does not catch.
\<close>

theorem total_without_anomalies_counterexample:
  "no_anomaly exact_rt [(PStr ''Apple'', PFloat (3/2))] (sale (PStr ''Apple'') (PInt (10 ^ 309)))
   \<and> calculate_total_cost exact_rt (PList [entry ''Apple'' (PFloat (3/2))])
        (PList [sale (PStr ''Apple'') (PInt (10 ^ 309))])
      = Inl OverflowError"
  by (simp add: run_defs no_anomaly_def sale_product_def sale_quantity_def sale_price_def
      exact_float_of_int_def)

text \<open>
  Claim C1, amended. When every record has a product that the price mapping of the
  catalogue lists, with a numeric price and a numeric quantity, the function does what
  \<open>sum(price[s.product] * s.quantity for s in S)\<close> does, from 0 and in input order: it
  returns that sum with an empty list of warnings, or raises the \<open>OverflowError\<close> that
  the sum raises on an integer beyond the float range. When the prices and quantities
  are integers or booleans, it returns the exact integer sum of price times quantity.
\<close>

theorem total_without_anomalies:
  assumes "price_dict_of rt C = Inr d"
    and "list_all (no_anomaly rt d) S"
  shows "calculate_total_cost rt C (PList S) =
           py_bind (py_sum rt (PInt 0) (map (line_cost rt d) S)) (\<lambda>tot. Inr (tot, []))
    \<and> (list_all (\<lambda>s. is_int (sale_price rt d s) \<and> is_int (sale_quantity s)) S \<longrightarrow>
         calculate_total_cost rt C (PList S) =
           Inr (PInt (\<Sum>s\<leftarrow>S. the_int (sale_price rt d s) * the_int (sale_quantity s)), []))"
proof -
  have g: "calculate_total_cost rt C (PList S) =
           py_bind (py_sum rt (PInt 0) (map (line_cost rt d) S)) (\<lambda>tot. Inr (tot, []))"
    using no_anomaly_loop [OF assms(2), of "PInt 0" "[]"]
    by (simp add: calculate_list [OF assms(1)])
  have "py_sum rt (PInt 0) (map (line_cost rt d) S)
     = Inr (PInt (0 + (\<Sum>s\<leftarrow>S. the_int (sale_price rt d s) * the_int (sale_quantity s))))"
    if h: "list_all (\<lambda>s. is_int (sale_price rt d s) \<and> is_int (sale_quantity s)) S"
  proof (rule int_lines_sum)
    show "list_all (\<lambda>s. no_anomaly rt d s \<and> is_int (sale_price rt d s) \<and> is_int (sale_quantity s)) S"
      using assms(2) h by (induction S) simp_all
  qed
  then show ?thesis using g by simp
qed

theorem total_without_anomalies_witness:
  "calculate_total_cost exact_rt
     (PList [entry ''Apple'' (PFloat (3/2)), entry ''Banana'' (PFloat (1/2))])
     (PList [sale (PStr ''Apple'') (PInt 4), sale (PStr ''Banana'') (PInt 2)])
   = Inr (PFloat 7, [])
   \<and> calculate_total_cost exact_rt
     (PList [entry ''Pen'' (PInt 3), entry ''Ink'' (PInt 5)])
     (PList [sale (PStr ''Pen'') (PInt 2), sale (PStr ''Ink'') (PInt 4), sale (PStr ''Pen'') (PBool True)])
   = Inr (PInt 29, [])"
proof -
  let ?C = "PList [entry ''Apple'' (PFloat (3/2)), entry ''Banana'' (PFloat (1/2))] :: rat pyval"
  let ?d = "[(PStr ''Apple'', PFloat (3/2)), (PStr ''Banana'', PFloat (1/2))] :: rat pydict"
  let ?S = "[sale (PStr ''Apple'') (PInt 4), sale (PStr ''Banana'') (PInt 2)] :: rat pyval list"
  let ?C' = "PList [entry ''Pen'' (PInt 3), entry ''Ink'' (PInt 5)] :: rat pyval"
  let ?d' = "[(PStr ''Pen'', PInt 3), (PStr ''Ink'', PInt 5)] :: rat pydict"
  let ?S' = "[sale (PStr ''Pen'') (PInt 2), sale (PStr ''Ink'') (PInt 4),
              sale (PStr ''Pen'') (PBool True)] :: rat pyval list"
  have 1: "price_dict_of exact_rt ?C = Inr ?d" "price_dict_of exact_rt ?C' = Inr ?d'"
    by (simp_all add: run_defs)
  have 2: "list_all (no_anomaly exact_rt ?d) ?S" "list_all (no_anomaly exact_rt ?d') ?S'"
    by (simp_all add: no_anomaly_def sale_product_def sale_quantity_def sale_price_def
        sale_def key_eq_def)
  have 3: "py_sum exact_rt (PInt 0) (map (line_cost exact_rt ?d) ?S) = Inr (PFloat 7)"
    by (simp add: line_cost_def sale_product_def sale_quantity_def sale_price_def sale_def
        key_eq_def py_mul_def py_add_def num_mul_def num_add_def int_to_float_def exact_rt_def)
  have 4: "list_all (\<lambda>s. is_int (sale_price exact_rt ?d' s) \<and> is_int (sale_quantity s)) ?S'"
    by (simp add: sale_product_def sale_quantity_def sale_price_def sale_def key_eq_def)
  have 5: "(\<Sum>s\<leftarrow>?S'. the_int (sale_price exact_rt ?d' s) * the_int (sale_quantity s)) = 29"
    by (simp add: sale_product_def sale_quantity_def sale_price_def sale_def key_eq_def)
  have a: "calculate_total_cost exact_rt ?C (PList ?S) = Inr (PFloat 7, [])"
    using total_without_anomalies [OF 1(1) 2(1), THEN conjunct1] by (simp only: 3 py_bind_Inr)
  have b: "calculate_total_cost exact_rt ?C' (PList ?S') = Inr (PInt 29, [])"
    using total_without_anomalies [OF 1(2) 2(2), THEN conjunct2, THEN mp, OF 4] by (simp only: 5)
  show ?thesis using a b by (rule conjI)
qed




text \<open>
  Claim C3 as stated fails: with the string price \<open>'ab'\<close> and the quantity \<open>10**100\<close>,
  \<open>price * quantity\<close> raises \<open>OverflowError\<close>; no message is appended and the valid
  record that follows is never processed.
\<close>

theorem invalid_price_record_counterexample:
  "calculate_total_cost exact_rt (PList [entry ''Apple'' (PStr ''ab'')])
     (PList [sale (PStr ''Apple'') (PInt (10 ^ 100)), sale (PStr ''Apple'') (PInt 2)])
   = Inl OverflowError"
  by (simp add: run_defs exact_repeat_error_def)

text \<open>
  Claim C3, amended. A record whose product is present and listed, but whose price or
  quantity is not a number, earns exactly one message
  \<open>Error: Invalid price format for '<product>'.\<close> and adds nothing to the total, unless
  \<open>price * quantity\<close> is the repetition of a string or list by an integer that the
  runtime refuses to build: the run over the sales with the record inserted returns the
  total of the run without it, and the messages of the run without it with that one
  message at the record's position.
\<close>

theorem invalid_price_record:
  assumes "price_dict_of rt C = Inr d"
    and "is_record s"
    and "truthy rt (sale_product s)"
    and "dict_lookup rt d (sale_product s) = Some price"
    and "\<not> (is_number price \<and> is_number (sale_quantity s))"
    and "\<not> refused_repetition rt price (sale_quantity s)"
    and "py_format rt (sale_product s) = Inr name"
    and "calculate_total_cost rt C (PList S1) = Inr (t1, e1)"
    and "calculate_total_cost rt C (PList (S1 @ S2)) = Inr (t, e1 @ e2)"
  shows "calculate_total_cost rt C (PList (S1 @ s # S2)) = Inr (t, e1 @ text_invalid name # e2)"
proof -
  have "\<And>t e. is_number t \<Longrightarrow> process_sale rt d (t, e) s = Inr (t, e @ [text_invalid name])"
    using assms(2-7) by (rule invalid_step)
  then show ?thesis
    using assms(1,8,9) by (rule insert_warning)
qed

theorem invalid_price_record_witness:
  "calculate_total_cost exact_rt
     (PList [entry ''Apple'' (PFloat (3/2)), entry ''Banana'' (PFloat (1/2)), entry ''Cap'' (PStr ''ab'')])
     (PList ([sale (PStr ''Apple'') (PInt 4)] @ sale (PStr ''Apple'') (PStr ''two'')
             # [sale (PStr ''Banana'') (PInt 2)]))
   = Inr (PFloat 7, [text_invalid ''Apple''])
   \<and> text_invalid ''Apple''
       = ''Error: Invalid price format for '' @ [CHR 0x27] @ ''Apple'' @ [CHR 0x27] @ ''.''
   \<and> calculate_total_cost exact_rt
     (PList [entry ''Apple'' (PFloat (3/2)), entry ''Banana'' (PFloat (1/2)), entry ''Cap'' (PStr ''ab'')])
     (PList ([sale (PStr ''Apple'') (PInt 4)] @ sale (PStr ''Cap'') (PInt 3)
             # [sale (PStr ''Banana'') (PInt 2)]))
   = Inr (PFloat 7, [text_invalid ''Cap''])"
proof -
  let ?C = "PList [entry ''Apple'' (PFloat (3/2)), entry ''Banana'' (PFloat (1/2)),
                   entry ''Cap'' (PStr ''ab'')] :: rat pyval"
  let ?d = "[(PStr ''Apple'', PFloat (3/2)), (PStr ''Banana'', PFloat (1/2)),
             (PStr ''Cap'', PStr ''ab'')] :: rat pydict"
  let ?s = "sale (PStr ''Apple'') (PStr ''two'') :: rat pyval"
  let ?s' = "sale (PStr ''Cap'') (PInt 3) :: rat pyval"
  have 1: "price_dict_of exact_rt ?C = Inr ?d"
    by (simp add: run_defs)
  have 2: "is_record ?s" "is_record ?s'" by (simp_all add: sale_def)
  have p: "sale_product ?s = PStr ''Apple''" "sale_product ?s' = PStr ''Cap''"
    by (simp_all add: sale_def sale_product_def)
  have q: "sale_quantity ?s = PStr ''two''" "sale_quantity ?s' = PInt 3"
    by (simp_all add: sale_def sale_quantity_def)
  have 3: "truthy exact_rt (sale_product ?s)" "truthy exact_rt (sale_product ?s')"
    by (simp_all add: p)
  have 4: "dict_lookup exact_rt ?d (sale_product ?s) = Some (PFloat (3/2))"
    "dict_lookup exact_rt ?d (sale_product ?s') = Some (PStr ''ab'')"
    by (simp_all add: p key_eq_def)
  have 5: "\<not> (is_number (PFloat (3/2) :: rat pyval) \<and> is_number (sale_quantity ?s))"
    "\<not> (is_number (PStr ''ab'' :: rat pyval) \<and> is_number (sale_quantity ?s'))"
    by (simp_all add: q)
  have 6: "\<not> refused_repetition exact_rt (PFloat (3/2)) (sale_quantity ?s)"
    "\<not> refused_repetition exact_rt (PStr ''ab'') (sale_quantity ?s')"
    by (simp_all add: q refused_repetition_def exact_rt_def exact_repeat_error_def)
  have 7: "py_format exact_rt (sale_product ?s) = Inr ''Apple''"
    "py_format exact_rt (sale_product ?s') = Inr ''Cap''"
    by (simp_all add: p)
  have 8: "calculate_total_cost exact_rt ?C (PList [sale (PStr ''Apple'') (PInt 4)])
             = Inr (PFloat 6, [])"
    by (simp add: run_defs)
  have 9: "calculate_total_cost exact_rt ?C
             (PList ([sale (PStr ''Apple'') (PInt 4)] @ [sale (PStr ''Banana'') (PInt 2)]))
             = Inr (PFloat 7, [] @ [])"
    by (simp add: run_defs)
  show ?thesis
    using invalid_price_record [OF 1 2(1) 3(1) 4(1) 5(1) 6(1) 7(1) 8 9]
      invalid_price_record [OF 1 2(2) 3(2) 4(2) 5(2) 6(2) 7(2) 8 9]
    by (simp add: text_invalid_def)
qed

text \<open>
  Claim C4. A record whose product is absent, empty or otherwise falsy earns exactly one
  warning, which contains the words \<open>missing product name\<close>, and adds nothing to the
  total: the run over the sales with the record inserted returns the total of the run
  without it, and the messages of the run without it with that one warning at the
  record's position. Nothing is assumed about the quantity of the record, which the
  outcome does not depend on.
\<close>

theorem missing_product_record:
  assumes "is_record s"
    and "\<not> truthy rt (sale_product s)"
    and "calculate_total_cost rt C (PList S1) = Inr (t1, e1)"
    and "calculate_total_cost rt C (PList (S1 @ S2)) = Inr (t, e1 @ e2)"
  shows "calculate_total_cost rt C (PList (S1 @ s # S2)) = Inr (t, e1 @ msg_missing # e2)
         \<and> msg_missing = ''Warning: Sale record with a '' @ ''missing product name'' @ ''.''"
proof -
  obtain d where d: "price_dict_of rt C = Inr d"
    using calculate_Inr_dict [OF assms(3)] by blast
  have "\<And>t e. is_number t \<Longrightarrow> process_sale rt d (t, e) s = Inr (t, e @ [msg_missing])"
    using assms(2) by (simp add: process_sale_record [OF assms(1)])
  then have "calculate_total_cost rt C (PList (S1 @ s # S2)) = Inr (t, e1 @ msg_missing # e2)"
    using d assms(3,4) by (rule insert_warning)
  then show ?thesis by (simp add: msg_missing_def)
qed

theorem missing_product_record_witness:
  "(\<forall>q. calculate_total_cost exact_rt
     (PList [entry ''Apple'' (PFloat (3/2)), entry ''Banana'' (PFloat (1/2))])
     (PList ([sale (PStr ''Apple'') (PInt 4)] @ sale (PStr []) q
             # [sale (PStr ''Banana'') (PInt 2)]))
   = Inr (PFloat 7, [] @ ''Warning: Sale record with a missing product name.'' # []))
   \<and> (\<forall>q. calculate_total_cost exact_rt
     (PList [entry ''Apple'' (PFloat (3/2)), entry ''Banana'' (PFloat (1/2))])
     (PList ([sale (PStr ''Apple'') (PInt 4)] @ PDict [(''Quantity'', q)]
             # [sale (PStr ''Banana'') (PInt 2)]))
   = Inr (PFloat 7, [] @ ''Warning: Sale record with a missing product name.'' # []))"
proof -
  let ?C = "PList [entry ''Apple'' (PFloat (3/2)), entry ''Banana'' (PFloat (1/2))] :: rat pyval"
  have 1: "\<And>q. is_record (sale (PStr []) q :: rat pyval)" by (simp add: sale_def)
  have 2: "\<And>q. \<not> truthy exact_rt (sale_product (sale (PStr []) q :: rat pyval))"
    by (simp add: sale_def sale_product_def)
  have 5: "\<And>q. is_record (PDict [(''Quantity'', q)] :: rat pyval)" by simp
  have 6: "\<And>q. \<not> truthy exact_rt (sale_product (PDict [(''Quantity'', q)] :: rat pyval))"
    by (simp add: sale_product_def)
  have 3: "calculate_total_cost exact_rt ?C (PList [sale (PStr ''Apple'') (PInt 4)])
             = Inr (PFloat 6, [])"
    by (simp add: run_defs)
  have 4: "calculate_total_cost exact_rt ?C
             (PList ([sale (PStr ''Apple'') (PInt 4)] @ [sale (PStr ''Banana'') (PInt 2)]))
             = Inr (PFloat 7, [] @ [])"
    by (simp add: run_defs)
  show ?thesis
    using missing_product_record [OF 1 2 3 4] missing_product_record [OF 5 6 3 4]
    by (simp add: msg_missing_def)
qed

text \<open>
  Claim C5 as stated fails: a product that is a non-empty list is not a key of the price
  mapping, and \<open>product not in price_dict\<close> raises \<open>TypeError\<close> outside the \<open>try\<close>;
  no warning is appended and the valid record that follows is never processed.
\<close>

theorem unlisted_product_record_counterexample:
  "calculate_total_cost exact_rt (PList [entry ''Apple'' (PInt 1)])
     (PList [sale (PList [PStr ''Pear'']) (PInt 2), sale (PStr ''Apple'') (PInt 2)])
   = Inl TypeError"
  by (simp add: run_defs)

text \<open>
  Claim C5, amended. A record whose product is truthy, hashable (a string or a number,
  not a list or an object) and formatted by \<open>str\<close> without an exception, and is not a
  key of the price mapping, earns exactly one warning naming the product and adds
  nothing to the total; the loop goes on with the next record.
\<close>

theorem unlisted_product_record:
  assumes "price_dict_of rt C = Inr d"
    and "is_record s"
    and "truthy rt (sale_product s)"
    and "hashable (sale_product s)"
    and "py_format rt (sale_product s) = Inr name"
    and "dict_lookup rt d (sale_product s) = None"
    and "calculate_total_cost rt C (PList S1) = Inr (t1, e1)"
    and "calculate_total_cost rt C (PList (S1 @ S2)) = Inr (t, e1 @ e2)"
  shows "calculate_total_cost rt C (PList (S1 @ s # S2)) =
           Inr (t, e1 @ text_unlisted name # e2)"
proof -
  have "\<And>t e. is_number t \<Longrightarrow>
      process_sale rt d (t, e) s = Inr (t, e @ [text_unlisted name])"
    using assms(3-6) by (simp add: process_sale_record [OF assms(2)] msg_unlisted_def)
  then show ?thesis
    using assms(1,7,8) by (rule insert_warning)
qed

theorem unlisted_product_record_witness:
  "calculate_total_cost exact_rt
     (PList [entry ''Apple'' (PFloat (3/2)), entry ''Banana'' (PFloat (1/2))])
     (PList ([sale (PStr ''Apple'') (PInt 4)] @ sale (PStr ''Mango'') (PInt 1)
             # [sale (PStr ''Banana'') (PInt 2)]))
   = Inr (PFloat 7, [text_unlisted ''Mango''])
   \<and> text_unlisted ''Mango''
       = ''Warning: '' @ [CHR 0x27] @ ''Mango'' @ [CHR 0x27] @ '' is not listed in the price catalogue.''"
proof -
  let ?C = "PList [entry ''Apple'' (PFloat (3/2)), entry ''Banana'' (PFloat (1/2))] :: rat pyval"
  let ?s = "sale (PStr ''Mango'') (PInt 1) :: rat pyval"
  have 1: "price_dict_of exact_rt ?C = Inr [(PStr ''Apple'', PFloat (3/2)), (PStr ''Banana'', PFloat (1/2))]"
    by (simp add: run_defs)
  have 2: "is_record ?s" by (simp add: sale_def)
  have p: "sale_product ?s = PStr ''Mango''" by (simp add: sale_def sale_product_def)
  have 3: "truthy exact_rt (sale_product ?s)" by (simp add: p)
  have 4: "hashable (sale_product ?s)" by (simp add: p)
  have 5: "py_format exact_rt (sale_product ?s) = Inr ''Mango''" by (simp add: p)
  have 6: "dict_lookup exact_rt [(PStr ''Apple'', PFloat (3/2)), (PStr ''Banana'', PFloat (1/2))]
             (sale_product ?s) = None"
    by (simp add: p key_eq_def)
  have 7: "calculate_total_cost exact_rt ?C (PList [sale (PStr ''Apple'') (PInt 4)])
             = Inr (PFloat 6, [])"
    by (simp add: run_defs)
  have 8: "calculate_total_cost exact_rt ?C
             (PList ([sale (PStr ''Apple'') (PInt 4)] @ [sale (PStr ''Banana'') (PInt 2)]))
             = Inr (PFloat 7, [] @ [])"
    by (simp add: run_defs)
  show ?thesis
    using unlisted_product_record [OF 1 2 3 4 5 6 7 8] by (simp add: text_unlisted_def)
qed






text \<open>
  Claim C9 as stated fails: a well-formed record with a listed float price and an
  integer quantity beyond the float range earns neither a warning nor an addend; the
  loop body raises \<open>OverflowError\<close> and the run ends there.
\<close>

theorem one_outcome_per_record_counterexample:
  "sale_ok exact_rt (sale (PStr ''Apple'') (PInt (10 ^ 309)))
   \<and> process_sale exact_rt [(PStr ''Apple'', PFloat (3/2))] (PInt 0, [])
        (sale (PStr ''Apple'') (PInt (10 ^ 309)))
      = Inl OverflowError
   \<and> calculate_total_cost exact_rt (PList [entry ''Apple'' (PFloat (3/2))])
        (PList [sale (PStr ''Apple'') (PInt (10 ^ 309)), sale (PStr ''Apple'') (PInt 2)])
      = Inl OverflowError"
  by (simp add: run_defs sale_ok_def sale_product_def exact_float_of_int_def)

text \<open>
  Claim C9, amended. On records that are objects with a falsy or string product, when
  the function returns (no arithmetic operation of the run raises \<open>OverflowError\<close> or
  \<open>MemoryError\<close>), every record has earned either one warning or one addend, never both
  and never neither; the warnings returned are those of the records in input order, the
  total returned is the sum of the addends, and the number of warnings plus the number
  of addends is the number of records.
\<close>

theorem one_outcome_per_record:
  assumes "price_dict_of rt C = Inr d"
    and "list_all (sale_ok rt) S"
    and "calculate_total_cost rt C (PList S) = Inr (tot, warnings)"
  shows "list_all (\<lambda>s. (sale_warning rt d s = None) \<noteq> (sale_addend rt d s = None)) S
    \<and> warnings = List.map_filter (sale_warning rt d) S
    \<and> py_sum rt (PInt 0) (map Inr (List.map_filter (sale_addend rt d) S)) = Inr tot
    \<and> length warnings + length (List.map_filter (sale_addend rt d) S) = length S
    \<and> (list_all is_int (List.map_filter (sale_addend rt d) S) \<longrightarrow>
         tot = PInt (sum_list (map the_int (List.map_filter (sale_addend rt d) S))))"
proof -
  have l: "sales_loop rt d S (PInt 0, []) = Inr (tot, warnings)"
    using assms(3) by (simp add: calculate_list [OF assms(1)])
  from returned_loop [OF assms(2) _ l]
  have x: "list_all (\<lambda>s. (sale_warning rt d s = None) \<noteq> (sale_addend rt d s = None)) S"
    and w: "warnings = List.map_filter (sale_warning rt d) S"
    and a: "py_sum rt (PInt 0) (map Inr (List.map_filter (sale_addend rt d) S)) = Inr tot"
    by simp_all
  have n: "length warnings + length (List.map_filter (sale_addend rt d) S) = length S"
    using map_filter_lengths [OF x] w by simp
  have i: "tot = PInt (sum_list (map the_int (List.map_filter (sale_addend rt d) S)))"
    if "list_all is_int (List.map_filter (sale_addend rt d) S)"
    using py_sum_ints [OF that, of rt 0] a by simp
  show ?thesis using x w a n i by blast
qed

theorem one_outcome_per_record_witness:
  "calculate_total_cost exact_rt
     (PList [entry ''Apple'' (PFloat (3/2)), entry ''Banana'' (PFloat (1/2))])
     (PList [sale (PStr ''Apple'') (PInt 4), sale (PStr ''Banana'') (PInt 2),
             sale (PStr ''Mango'') (PInt 1), sale (PStr '''') (PInt 1),
             sale (PStr ''Apple'') (PStr ''two'')])
   = Inr (PFloat 7, [text_unlisted ''Mango'', msg_missing, text_invalid ''Apple''])
   \<and> List.map_filter (sale_addend exact_rt
        [(PStr ''Apple'', PFloat (3/2)), (PStr ''Banana'', PFloat (1/2))])
       [sale (PStr ''Apple'') (PInt 4), sale (PStr ''Banana'') (PInt 2),
        sale (PStr ''Mango'') (PInt 1), sale (PStr '''') (PInt 1),
        sale (PStr ''Apple'') (PStr ''two'')]
     = [PFloat 6, PFloat 1]
   \<and> py_sum exact_rt (PInt 0) (map Inr [PFloat 6, PFloat 1]) = Inr (PFloat 7)
   \<and> length [text_unlisted ''Mango'', msg_missing, text_invalid ''Apple'']
       + length [PFloat 6, PFloat 1 :: rat pyval] = (5::nat)"
proof -
  let ?C = "PList [entry ''Apple'' (PFloat (3/2)), entry ''Banana'' (PFloat (1/2))] :: rat pyval"
  let ?d = "[(PStr ''Apple'', PFloat (3/2)), (PStr ''Banana'', PFloat (1/2))] :: rat pydict"
  let ?S = "[sale (PStr ''Apple'') (PInt 4), sale (PStr ''Banana'') (PInt 2),
             sale (PStr ''Mango'') (PInt 1), sale (PStr '''') (PInt 1),
             sale (PStr ''Apple'') (PStr ''two'')] :: rat pyval list"
  let ?W = "[text_unlisted ''Mango'', msg_missing, text_invalid ''Apple'']"
  have 1: "price_dict_of exact_rt ?C = Inr ?d"
    by (simp add: run_defs)
  have 2: "list_all (sale_ok exact_rt) ?S"
    by (simp add: sale_ok_def sale_product_def sale_def)
  have 3: "calculate_total_cost exact_rt ?C (PList ?S) = Inr (PFloat 7, ?W)"
    by (simp add: run_defs)
  have a: "List.map_filter (sale_addend exact_rt ?d) ?S = [PFloat 6, PFloat 1]"
    by (simp add: sale_addend_def no_anomaly_def line_cost_def sale_product_def
        sale_quantity_def sale_price_def sale_def key_eq_def py_mul_def num_mul_def
        int_to_float_def exact_rt_def)
  note th = one_outcome_per_record [OF 1 2 3]
  have s: "py_sum exact_rt (PInt 0) (map Inr [PFloat 6, PFloat 1]) = Inr (PFloat 7)"
    using th [THEN conjunct2, THEN conjunct2, THEN conjunct1] by (simp only: a)
  have "length ?W + length (List.map_filter (sale_addend exact_rt ?d) ?S) = length ?S"
    using th [THEN conjunct2, THEN conjunct2, THEN conjunct2, THEN conjunct1] .
  then have n: "length ?W + length [PFloat 6, PFloat 1 :: rat pyval] = (5::nat)"
    by (simp only: a) simp
  show ?thesis using 3 a s n by blast
qed

text \<open>
  Claim C10 as stated fails: after a record that made the running total a float, a
  record with the listed integer price \<open>10**309\<close> and the quantity \<open>True\<close> contributes
  nothing; adding \<open>10**309 * True\<close> to the float raises \<open>OverflowError\<close>.
\<close>

theorem boolean_quantity_record_counterexample:
  "calculate_total_cost exact_rt
     (PList [entry ''Apple'' (PFloat (3/2)), entry ''Bond'' (PInt (10 ^ 309))])
     (PList [sale (PStr ''Apple'') (PInt 1), sale (PStr ''Bond'') (PBool True)])
   = Inl OverflowError"
  by (simp add: run_defs exact_float_of_int_def)

text \<open>
  Claim C10, amended. A record with a listed product, a numeric price and a boolean
  quantity earns no warning: after the records before it, the running total becomes the
  total plus the price times the integer 1 (for \<open>True\<close>) or 0 (for \<open>False\<close>), in
  Python's arithmetic, and the loop goes on with the same messages; the run raises
  \<open>OverflowError\<close> when that arithmetic does. For an integer price and an integer
  running total the total grows by exactly the price, or by 0.
\<close>

theorem boolean_quantity_record:
  assumes "price_dict_of rt C = Inr d"
    and "is_record s"
    and "truthy rt (sale_product s)"
    and "dict_lookup rt d (sale_product s) = Some price"
    and "is_number price"
    and "sale_quantity s = PBool b"
    and "calculate_total_cost rt C (PList S1) = Inr (t1, e1)"
  shows "calculate_total_cost rt C (PList (S1 @ s # S2)) =
           py_bind (py_bind (num_mul rt price (PInt (if b then 1 else 0))) (num_add rt t1))
             (\<lambda>tot. sales_loop rt d S2 (tot, e1))
    \<and> (is_int price \<and> is_int t1 \<longrightarrow>
         calculate_total_cost rt C (PList (S1 @ s # S2)) =
           sales_loop rt d S2 (PInt (the_int t1 + (if b then the_int price else 0)), e1))"
proof -
  have l1: "sales_loop rt d S1 (PInt 0, []) = Inr (t1, e1)"
    using assms(7) by (simp add: calculate_list [OF assms(1)])
  then have n1: "is_number t1" using sales_loop_number [of rt d S1 "PInt 0" "[]" t1 e1] by simp
  have q: "is_number (sale_quantity s)" by (simp add: assms(6))
  have st: "process_sale rt d (t1, e1) s =
      py_bind (py_bind (num_mul rt price (PInt (if b then 1 else 0))) (num_add rt t1))
        (\<lambda>t'. Inr (t', e1))"
    using numeric_step [OF assms(2,3,4,5) q n1, of e1]
    by (simp only: assms(6) num_mul_bool)
  have g: "calculate_total_cost rt C (PList (S1 @ s # S2)) =
           py_bind (py_bind (num_mul rt price (PInt (if b then 1 else 0))) (num_add rt t1))
             (\<lambda>tot. sales_loop rt d S2 (tot, e1))"
    using l1 st
    by (cases "py_bind (num_mul rt price (PInt (if b then 1 else 0))) (num_add rt t1)")
      (simp_all add: calculate_list [OF assms(1)] sales_loop_append)
  have "py_bind (num_mul rt price (PInt (if b then 1 else 0))) (num_add rt t1)
      = Inr (PInt (the_int t1 + (if b then the_int price else 0)))"
    if "is_int price" "is_int t1"
    using that by (simp add: num_mul_ints num_add_ints)
  then show ?thesis using g by simp
qed

theorem boolean_quantity_record_witness:
  "calculate_total_cost exact_rt (PList [entry ''Pen'' (PInt 3)])
     (PList ([sale (PStr ''Pen'') (PInt 2)] @ sale (PStr ''Pen'') (PBool True) # []))
     = Inr (PInt 9, [])
   \<and> calculate_total_cost exact_rt (PList [entry ''Pen'' (PInt 3)])
     (PList ([sale (PStr ''Pen'') (PInt 2)] @ sale (PStr ''Pen'') (PBool False) # []))
     = Inr (PInt 6, [])
   \<and> calculate_total_cost exact_rt (PList [entry ''Apple'' (PFloat (3/2))])
     (PList ([sale (PStr ''Apple'') (PInt 4)] @ sale (PStr ''Apple'') (PBool True) # []))
     = Inr (PFloat (15/2), [])
   \<and> calculate_total_cost exact_rt (PList [entry ''Apple'' (PFloat (3/2))])
     (PList ([sale (PStr ''Apple'') (PInt 4)] @ sale (PStr ''Apple'') (PBool False) # []))
     = Inr (PFloat 6, [])"
proof -
  let ?C = "PList [entry ''Pen'' (PInt 3)] :: rat pyval"
  let ?A = "PList [entry ''Apple'' (PFloat (3/2))] :: rat pyval"
  have 1: "price_dict_of exact_rt ?C = Inr [(PStr ''Pen'', PInt 3)]"
    "price_dict_of exact_rt ?A = Inr [(PStr ''Apple'', PFloat (3/2))]"
    by (simp_all add: run_defs)
  have r: "\<And>n b. is_record (sale (PStr n) (PBool b) :: rat pyval)" by (simp add: sale_def)
  have p: "\<And>n b. sale_product (sale (PStr n) (PBool b) :: rat pyval) = PStr n"
    by (simp add: sale_def sale_product_def)
  have 3: "\<And>b. truthy exact_rt (sale_product (sale (PStr ''Pen'') (PBool b) :: rat pyval))"
    "\<And>b. truthy exact_rt (sale_product (sale (PStr ''Apple'') (PBool b) :: rat pyval))"
    by (simp_all add: p)
  have 4: "\<And>b. dict_lookup exact_rt [(PStr ''Pen'', PInt 3)]
       (sale_product (sale (PStr ''Pen'') (PBool b) :: rat pyval)) = Some (PInt 3)"
    "\<And>b. dict_lookup exact_rt [(PStr ''Apple'', PFloat (3/2))]
       (sale_product (sale (PStr ''Apple'') (PBool b) :: rat pyval)) = Some (PFloat (3/2))"
    by (simp_all add: p key_eq_def)
  have 5: "is_number (PInt 3 :: rat pyval)" "is_number (PFloat (3/2) :: rat pyval)" by simp_all
  have 6: "\<And>n b. sale_quantity (sale (PStr n) (PBool b) :: rat pyval) = PBool b"
    by (simp add: sale_def sale_quantity_def)
  have 7: "calculate_total_cost exact_rt ?C (PList [sale (PStr ''Pen'') (PInt 2)]) = Inr (PInt 6, [])"
    "calculate_total_cost exact_rt ?A (PList [sale (PStr ''Apple'') (PInt 4)]) = Inr (PFloat 6, [])"
    by (simp_all add: run_defs)
  show ?thesis
    using boolean_quantity_record [OF 1(1) r 3(1) 4(1) 5(1) 6 7(1), of True "[]"]
      boolean_quantity_record [OF 1(1) r 3(1) 4(1) 5(1) 6 7(1), of False "[]"]
      boolean_quantity_record [OF 1(2) r 3(2) 4(2) 5(2) 6 7(2), of True "[]"]
      boolean_quantity_record [OF 1(2) r 3(2) 4(2) 5(2) 6 7(2), of False "[]"]
    by (simp add: num_add_def num_mul_def int_to_float_def exact_rt_def)
qed

end
